theory Spec2Isabelle
  imports Main
begin

section \<open>Python strings\<close>

text \<open>
  A Python \<open>str\<close> is a sequence of Unicode code points, and \<open>len\<close>, slicing, \<open>re\<close> and
  \<open>strip\<close> all count code points. A character is therefore modelled by its code point
  (a natural number) and a string by the list of its code points. \<open>ustr\<close> turns an ASCII
  literal of the theory into such a string.
\<close>

type_synonym uchar = nat
type_synonym ustring = "uchar list"

definition ustr :: "string \<Rightarrow> ustring" where
  "ustr s = map of_char s"

text \<open>
  Whitespace as \<open>str.isspace\<close>, \<open>str.strip()\<close>, \<open>str.split()\<close> and the pattern \<open>\s\<close> of
  \<open>re\<close> on \<open>str\<close> see it (CPython's \<open>Py_UNICODE_ISSPACE\<close>): U+0009..U+000D,
  U+001C..U+0020, U+0085, U+00A0, U+1680, U+2000..U+200A, U+2028, U+2029, U+202F, U+205F
  and U+3000.
\<close>

definition is_space :: "uchar \<Rightarrow> bool" where
  "is_space c =
     ((9 \<le> c \<and> c \<le> 13) \<or> (28 \<le> c \<and> c \<le> 32) \<or> c = 133 \<or> c = 160 \<or> c = 5760 \<or>
      (8192 \<le> c \<and> c \<le> 8202) \<or> c = 8232 \<or> c = 8233 \<or> c = 8239 \<or> c = 8287 \<or> c = 12288)"

text \<open>
  \<open>re.sub(pattern, repl, s)\<close> scans \<open>s\<close> from the left and replaces every
  non-overlapping match by \<open>repl\<close>. Two shapes of pattern occur in the program: a single
  character class, which matches one character at a time, and a character class under
  \<open>+\<close>, which is greedy and matches a maximal run.
\<close>

fun re_sub_class :: "(uchar \<Rightarrow> bool) \<Rightarrow> ustring \<Rightarrow> ustring \<Rightarrow> ustring" where
  "re_sub_class p repl [] = []"
| "re_sub_class p repl (c # cs) =
     (if p c then repl @ re_sub_class p repl cs else c # re_sub_class p repl cs)"

function re_sub_class_plus :: "(uchar \<Rightarrow> bool) \<Rightarrow> ustring \<Rightarrow> ustring \<Rightarrow> ustring" where
  "re_sub_class_plus p repl [] = []"
| "re_sub_class_plus p repl (c # cs) =
     (if p c then repl @ re_sub_class_plus p repl (dropWhile p cs)
      else c # re_sub_class_plus p repl cs)"
  by pat_completeness auto
termination
  by (relation "measure (\<lambda>(p, repl, s). length s)")
     (auto simp: length_dropWhile_le less_Suc_eq_le)

text \<open>
  \<open>s.strip(chars)\<close> and \<open>s.strip()\<close>: the left end is advanced over the characters to
  strip, then the right end is moved back over them; what lies between is returned.
\<close>

definition py_lstrip :: "(uchar \<Rightarrow> bool) \<Rightarrow> ustring \<Rightarrow> ustring" where
  "py_lstrip p s = dropWhile p s"

definition py_rstrip :: "(uchar \<Rightarrow> bool) \<Rightarrow> ustring \<Rightarrow> ustring" where
  "py_rstrip p s = rev (dropWhile p (rev s))"

definition py_strip :: "(uchar \<Rightarrow> bool) \<Rightarrow> ustring \<Rightarrow> ustring" where
  "py_strip p s = py_rstrip p (py_lstrip p s)"

section \<open>The exporter: \<open>convert_wiki.py\<close>\<close>

subsection \<open>\<open>sanitize_filename\<close>\<close>

text \<open>
  The class \<open>[<>:"/\\|?*]\<close> of the first substitution: the nine characters
  \<open><\<close> (60), \<open>>\<close> (62), \<open>:\<close> (58), the double quote (34), \<open>/\<close> (47), the backslash (92),
  \<open>|\<close> (124), \<open>?\<close> (63) and \<open>*\<close> (42).
\<close>

definition illegal_chars :: "uchar list" where
  "illegal_chars = [60, 62, 58, 34, 47, 92, 124, 63, 42]"

definition is_illegal :: "uchar \<Rightarrow> bool" where
  "is_illegal c = (c \<in> set illegal_chars)"

definition is_dot_or_underscore :: "uchar \<Rightarrow> bool" where
  "is_dot_or_underscore c = (c \<in> set (ustr ''._''))"

definition sanitize_filename :: "ustring \<Rightarrow> ustring" where
  "sanitize_filename title =
     (let filename = re_sub_class is_illegal (ustr ''_'') title;
          filename = re_sub_class_plus is_space (ustr ''_'') filename;
          filename = py_strip is_dot_or_underscore filename
      in if length filename > 200 then take 200 filename else filename)"

text \<open>The value of \<open>filename\<close> after line 17, before the length limit is applied.\<close>

definition stripped_filename :: "ustring \<Rightarrow> ustring" where
  "stripped_filename title =
     py_strip is_dot_or_underscore
       (re_sub_class_plus is_space (ustr ''_'') (re_sub_class is_illegal (ustr ''_'') title))"

text \<open>
  The same four steps as the specification words them, each defined on its own:
  every character of the class becomes an underscore; of a run of whitespace the first
  character becomes an underscore and the others vanish; dots and underscores are
  dropped at both ends; at most 200 characters are kept.
\<close>

definition spec_replace_illegal :: "ustring \<Rightarrow> ustring" where
  "spec_replace_illegal s = map (\<lambda>c. if is_illegal c then of_char CHR ''_'' else c) s"

fun spec_collapse_whitespace :: "bool \<Rightarrow> ustring \<Rightarrow> ustring" where
  "spec_collapse_whitespace in_run [] = []"
| "spec_collapse_whitespace in_run (c # cs) =
     (if is_space c
      then (if in_run then [] else ustr ''_'') @ spec_collapse_whitespace True cs
      else c # spec_collapse_whitespace False cs)"

fun spec_strip_trailing :: "ustring \<Rightarrow> ustring" where
  "spec_strip_trailing [] = []"
| "spec_strip_trailing (c # cs) =
     (let r = spec_strip_trailing cs
      in if r = [] \<and> is_dot_or_underscore c then [] else c # r)"

definition spec_strip :: "ustring \<Rightarrow> ustring" where
  "spec_strip s = spec_strip_trailing (dropWhile is_dot_or_underscore s)"

definition spec_truncate :: "ustring \<Rightarrow> ustring" where
  "spec_truncate s = take 200 s"

subsection \<open>JSON values and text formatting\<close>

text \<open>
  An article of the JSON hand-off file is an object, read by \<open>json.load\<close> into a
  \<open>dict\<close>: a map from member names to values. Of a value the program uses only
  whether it is a \<open>str\<close>, and the text an f-string gives for it. \<open>POther\<close> stands for
  every value that is neither a string nor an integer (\<open>null\<close>, a boolean, a float, an
  array, an object) and carries that text; such a value has no method \<open>strip\<close>
  (\<open>AttributeError\<close>) and \<open>re.sub\<close> rejects it (\<open>TypeError\<close>), as for an integer.
\<close>

datatype pyval = PStr ustring | PInt int | POther ustring

type_synonym article = "string \<rightharpoonup> pyval"

datatype py_error =
  AttributeError | TypeError | KeyError | NameError | ValueError | OSError | UnicodeEncodeError

text \<open>\<open>str(n)\<close> for an integer: decimal digits, with a minus sign when negative.\<close>

function decimal :: "nat \<Rightarrow> ustring" where
  "decimal n = (if n < 10 then [48 + n] else decimal (n div 10) @ [48 + n mod 10])"
  by pat_completeness auto
termination
  by (relation "measure id") auto

declare decimal.simps [simp del]

definition str_int :: "int \<Rightarrow> ustring" where
  "str_int i = (if i < 0 then of_char CHR ''-'' # decimal (nat (- i)) else decimal (nat i))"

text \<open>A replacement field \<open>{v}\<close> of an f-string.\<close>

fun py_format :: "pyval \<Rightarrow> ustring" where
  "py_format (PStr s) = s"
| "py_format (PInt i) = str_int i"
| "py_format (POther s) = s"

definition dict_get :: "article \<Rightarrow> string \<Rightarrow> pyval \<Rightarrow> pyval" where
  "dict_get d k dflt = (case d k of Some v \<Rightarrow> v | None \<Rightarrow> dflt)"

text \<open>\<open>content.strip()\<close> and \<open>sanitize_filename(title)\<close> on a value of any type.\<close>

fun strip_method :: "pyval \<Rightarrow> py_error + ustring" where
  "strip_method (PStr s) = Inr (py_strip is_space s)"
| "strip_method v = Inl AttributeError"

fun sanitize_filename_call :: "pyval \<Rightarrow> py_error + ustring" where
  "sanitize_filename_call (PStr s) = Inr (sanitize_filename s)"
| "sanitize_filename_call v = Inl TypeError"

subsection \<open>The platform\<close>

text \<open>
  What the loop depends on, and the platform the program runs on and the output
  directory decide: whether a file name can be encoded for the file system, whether
  the operating system opens it for writing (a name may be too long or reserved, or
  that of a directory), which file a name denotes, and which characters standard
  output can encode. \<open>open_fails\<close> gives the exception the operating system raises for
  a name, \<open>None\<close> when it opens the file. \<open>file_of\<close> gives the file a name denotes, as a
  name chosen among those that denote it: the name itself on a file system that
  tells all names apart, and for instance the name in lower case on one that ignores
  case, where \<open>A.txt\<close> and \<open>a.txt\<close> are one file. None of these is taken to change
  during a run. Standard output is taken to be open and to encode ASCII, so that
  \<open>print\<close> fails only on a character it cannot encode.
\<close>

record platform =
  name_encodable :: "ustring \<Rightarrow> bool"
  open_fails :: "ustring \<Rightarrow> py_error option"
  file_of :: "ustring \<Rightarrow> ustring"
  stdout_encodes :: "uchar \<Rightarrow> bool"

definition can_print :: "platform \<Rightarrow> ustring \<Rightarrow> bool" where
  "can_print env s = list_all (\<lambda>c. c < 128 \<or> stdout_encodes env c) s"

text \<open>
  \<open>open(file_path, 'w', encoding='utf-8')\<close>: Python encodes the name for the file
  system (\<open>UnicodeEncodeError\<close>), then refuses a name with a NUL character
  (\<open>ValueError\<close>), then asks the operating system. \<open>None\<close> is success.
\<close>

definition open_error :: "platform \<Rightarrow> ustring \<Rightarrow> py_error option" where
  "open_error env name =
     (if \<not> name_encodable env name then Some UnicodeEncodeError
      else if 0 \<in> set name then Some ValueError
      else open_fails env name)"

text \<open>
  \<open>f.write(text)\<close> on a file opened with \<open>encoding='utf-8'\<close> raises
  \<open>UnicodeEncodeError\<close> when the text holds a surrogate code point (U+D800 to U+DFFF),
  which a string read from JSON can hold; nothing is written then.
\<close>

definition is_surrogate :: "uchar \<Rightarrow> bool" where
  "is_surrogate c = (55296 \<le> c \<and> c \<le> 57343)"

definition utf8_encodable :: "ustring \<Rightarrow> bool" where
  "utf8_encodable s = list_all (\<lambda>c. \<not> is_surrogate c) s"

text \<open>
  An example of a platform, for the concrete runs below: Linux with a UTF-8 locale and
  an output directory that holds no directory. A file name is encoded in UTF-8, except
  that the code points U+DC80 to U+DCFF stand for one byte each and the other
  surrogates cannot be encoded; the operating system refuses an encoded name of more
  than 255 bytes (\<open>OSError\<close>). Different names are different files. Standard output
  encodes every character but the surrogates.
\<close>

definition name_bytes :: "ustring \<Rightarrow> nat" where
  "name_bytes s =
     sum_list (map (\<lambda>c. if c < 128 then 1 else if c < 2048 then 2
                        else if is_surrogate c then 1
                        else if c < 65536 then 3 else 4) s)"

definition linux_utf8 :: platform where
  "linux_utf8 =
     \<lparr>name_encodable = (\<lambda>name.
        \<not> list_ex (\<lambda>c. is_surrogate c \<and> (c < 56448 \<or> 56575 < c)) name),
      open_fails = (\<lambda>name. if 255 < name_bytes name then Some OSError else None),
      file_of = (\<lambda>name. name),
      stdout_encodes = (\<lambda>c. \<not> is_surrogate c)\<rparr>"

subsection \<open>The loop of \<open>convert_json_to_documents\<close>\<close>

text \<open>
  Of \<open>convert_json_to_documents\<close> the model has the loop, lines 58 to 99, run on the
  list that \<open>json.load\<close> gave and on the output directory as line 37 left it. What
  comes before the loop (lines 33 to 56) and after it (lines 101 to 107) is not
  modelled.
\<close>

text \<open>The f-string of lines 78 to 84: the text written to the article's file.\<close>

definition document_content :: "pyval \<Rightarrow> pyval \<Rightarrow> pyval \<Rightarrow> pyval \<Rightarrow> ustring" where
  "document_content title url word_count content =
     ustr ''TITLE: '' @ py_format title @
     ustr ''\<newline>URL: '' @ py_format url @
     ustr ''\<newline>WORD COUNT: '' @ py_format word_count @
     ustr ''\<newline>\<newline>CONTENT:\<newline>'' @ py_format content @
     ustr ''\<newline>''"

text \<open>
  The output directory is a map from files to their texts, a file being named as
  \<open>file_of\<close> names it. The text of a file is the string written to it: its encoding
  to bytes, and the decoding on reading, are left out. The state of the loop is the
  directory and the two counters, which the function prints when the loop is over
  (what it returns is the path of the directory).
\<close>

type_synonym directory = "ustring \<rightharpoonup> ustring"

record export_state =
  files :: directory
  converted_count :: nat
  skipped_count :: nat

text \<open>
  A piece of the program either runs to its end or raises an exception; both leave a
  state behind.
\<close>

datatype outcome =
  Completed (state_of: export_state)
| Raised (error_of: py_error) (state_of: export_state)

text \<open>
  The body of the \<open>try\<close> block (lines 63 to 94). Opening the file creates it or empties
  it, so a \<open>write\<close> that raises leaves an empty file. The progress message of line 94
  is ASCII.
\<close>

definition try_article :: "platform \<Rightarrow> export_state \<Rightarrow> article \<Rightarrow> outcome" where
  "try_article env st article =
     (let title = dict_get article ''title'' (PStr (ustr ''Untitled''));
          content = dict_get article ''content'' (PStr []);
          url = dict_get article ''url'' (PStr []);
          word_count = dict_get article ''word_count'' (PInt 0)
      in case strip_method content of
           Inl e \<Rightarrow> Raised e st
         | Inr stripped \<Rightarrow>
             if stripped = [] then Completed (st\<lparr>skipped_count := skipped_count st + 1\<rparr>)
             else (case sanitize_filename_call title of
                     Inl e \<Rightarrow> Raised e st
                   | Inr name \<Rightarrow>
                       (let filename = name @ ustr ''.txt'';
                            document = document_content title url word_count content
                        in case open_error env filename of
                             Some e \<Rightarrow> Raised e st
                           | None \<Rightarrow>
                               if utf8_encodable document
                               then Completed
                                 (st\<lparr>files := (files st)(file_of env filename \<mapsto> document),
                                     converted_count := converted_count st + 1\<rparr>)
                               else Raised UnicodeEncodeError
                                 (st\<lparr>files := (files st)(file_of env filename \<mapsto> [])\<rparr>))))"

text \<open>
  The \<open>except\<close> clause (lines 96 to 99) prints a message that holds the title, then
  counts the article as skipped. Nothing protects the \<open>print\<close>: when standard output
  cannot encode the title, the clause raises and the exception leaves the loop. (The
  rest of the message is ASCII but for the path in the message of an \<open>OSError\<close>: the
  characters of the file name outside ASCII are characters of the title, and the name
  of the output directory is taken to be ASCII, as the default \<open>wiki_documents\<close> is.)
\<close>

definition except_clause :: "platform \<Rightarrow> pyval \<Rightarrow> export_state \<Rightarrow> outcome" where
  "except_clause env title st =
     (if can_print env (py_format title)
      then Completed (st\<lparr>skipped_count := skipped_count st + 1\<rparr>)
      else Raised UnicodeEncodeError st)"

text \<open>One iteration of the loop on an object.\<close>

definition convert_article :: "platform \<Rightarrow> export_state \<Rightarrow> article \<Rightarrow> outcome" where
  "convert_article env st article =
     (case try_article env st article of
        Completed st' \<Rightarrow> Completed st'
      | Raised e st' \<Rightarrow>
          except_clause env (dict_get article ''title'' (PStr (ustr ''Untitled''))) st')"

text \<open>
  An element of the loaded array is an object or some other value. On another value
  \<open>article.get\<close> raises before \<open>title\<close> is assigned; the \<open>except\<close> clause then formats
  the variable \<open>title\<close>, which holds the title of the last object before, and is
  unbound when there was none: the clause itself raises a \<open>NameError\<close> then. The loop
  (lines 58 to 99) carries that variable along; an exception that leaves an iteration
  ends the loop.
\<close>

datatype json_value = JObject article | JNotObject

fun convert_elements ::
  "platform \<Rightarrow> pyval option \<Rightarrow> export_state \<Rightarrow> json_value list \<Rightarrow> outcome" where
  "convert_elements env title st [] = Completed st"
| "convert_elements env title st (JObject article # rest) =
     (case convert_article env st article of
        Completed st' \<Rightarrow>
          convert_elements env
            (Some (dict_get article ''title'' (PStr (ustr ''Untitled'')))) st' rest
      | Raised e st' \<Rightarrow> Raised e st')"
| "convert_elements env title st (JNotObject # rest) =
     (case title of
        None \<Rightarrow> Raised NameError st
      | Some t \<Rightarrow>
          (case except_clause env t st of
             Completed st' \<Rightarrow> convert_elements env title st' rest
           | Raised e st' \<Rightarrow> Raised e st'))"

text \<open>The loop over a list of objects, on the output directory as it is.\<close>

definition convert_articles :: "platform \<Rightarrow> directory \<Rightarrow> article list \<Rightarrow> outcome" where
  "convert_articles env output_dir wiki_data =
     convert_elements env None
       \<lparr>files = output_dir, converted_count = 0, skipped_count = 0\<rparr>
       (map JObject wiki_data)"

section \<open>The fetcher: \<open>WikiScraper.py\<close>\<close>

subsection \<open>\<open>get_all_page_titles\<close>\<close>

text \<open>
  What one listing request gives the loop. \<open>ListingFailed\<close>: an exception is raised in
  the \<open>try\<close> block before any title is appended (the transport fails, the status is an
  error, the body is not JSON, a page has no title). \<open>ListingData pages token\<close>: the
  request succeeds; \<open>pages\<close> is the list of titles under \<open>query.allpages\<close> when both keys
  are there, and \<open>token\<close> is \<open>continue.apcontinue\<close> when both keys are there. (A
  \<open>continue\<close> member of a wrong shape raises after the titles are appended and ends the
  loop as a response without token does: it is such a response here.)

  The server is the list of its responses, one taken by each request. A loop that asks
  for a response when none is left does not return: the result is \<open>None\<close>.
\<close>

datatype listing_response =
  ListingFailed
| ListingData "ustring list option" "ustring option"

text \<open>
  The state of the loop: the two variables of the source, and the \<open>apcontinue\<close>
  parameter of each request sent so far (\<open>None\<close> for a request without it).
\<close>

record listing_state =
  all_titles :: "ustring list"
  continue_token :: "ustring option"
  sent :: "ustring option list"

text \<open>\<open>if continue_token:\<close> holds for a token that is neither \<open>None\<close> nor empty.\<close>

fun apcontinue_param :: "ustring option \<Rightarrow> ustring option" where
  "apcontinue_param None = None"
| "apcontinue_param (Some tok) = (if tok = [] then None else Some tok)"

fun page_loop :: "listing_state \<Rightarrow> listing_response list \<Rightarrow> listing_state option" where
  "page_loop st [] = None"
| "page_loop st (ListingFailed # rs) =
     Some (st\<lparr>sent := sent st @ [apcontinue_param (continue_token st)]\<rparr>)"
| "page_loop st (ListingData pages token # rs) =
     (let st = st\<lparr>sent := sent st @ [apcontinue_param (continue_token st)]\<rparr>;
          st = (case pages of
                  None \<Rightarrow> st
                | Some ts \<Rightarrow> st\<lparr>all_titles := all_titles st @ ts\<rparr>)
      in case token of
           None \<Rightarrow> Some st
         | Some tok \<Rightarrow> page_loop (st\<lparr>continue_token := Some tok\<rparr>) rs)"

definition listing_start :: listing_state where
  "listing_start = \<lparr>all_titles = [], continue_token = None, sent = []\<rparr>"

definition get_all_page_titles :: "listing_response list \<Rightarrow> ustring list option" where
  "get_all_page_titles server = map_option all_titles (page_loop listing_start server)"

subsection \<open>\<open>get_page_content\<close>\<close>

text \<open>
  A revision is what \<open>['slots']['main']['*']\<close> finds in it: \<open>None\<close> when a key of that
  path is missing. A page is its \<open>revisions\<close> list, \<open>None\<close> when the page has no such
  key. The response to a content request is either a failure (an exception before the
  loop over the pages starts) or the pages under \<open>query.pages\<close> in their order, none
  when a key is missing.
\<close>

datatype revision = Revision "ustring option"

type_synonym page = "revision list option"

datatype content_response = ContentFailed | ContentPages "page list"

text \<open>
  The loop of lines 92 to 95: the first page with a non-empty revisions list decides.
  \<open>Inr (Some c)\<close> is \<open>return content\<close>, \<open>Inr None\<close> the end of the loop, \<open>Inl\<close> an exception.
\<close>

fun pages_loop :: "page list \<Rightarrow> py_error + ustring option" where
  "pages_loop [] = Inr None"
| "pages_loop (None # ps) = pages_loop ps"
| "pages_loop (Some [] # ps) = pages_loop ps"
| "pages_loop (Some (Revision None # revs) # ps) = Inl KeyError"
| "pages_loop (Some (Revision (Some c) # revs) # ps) = Inr (Some c)"

text \<open>
  \<open>api\<close> is the wiki at the moment of the request: the response it gives for a title.
  An exception is caught and the function returns \<open>None\<close>.
\<close>

definition get_page_content :: "(ustring \<Rightarrow> content_response) \<Rightarrow> ustring \<Rightarrow> ustring option" where
  "get_page_content api title =
     (case api title of
        ContentFailed \<Rightarrow> None
      | ContentPages pages \<Rightarrow>
          (case pages_loop pages of Inl e \<Rightarrow> None | Inr r \<Rightarrow> r))"

subsection \<open>\<open>scrape_all_content\<close>\<close>

definition clean_wikitext :: "ustring option \<Rightarrow> ustring" where
  "clean_wikitext wikitext =
     (case wikitext of
        None \<Rightarrow> []
      | Some w \<Rightarrow> if w = [] then [] else py_strip is_space w)"

text \<open>\<open>s.split()\<close>: the maximal runs of characters that are not whitespace.\<close>

fun split_from :: "ustring \<Rightarrow> ustring \<Rightarrow> ustring list" where
  "split_from word [] = (if word = [] then [] else [word])"
| "split_from word (c # cs) =
     (if is_space c
      then (if word = [] then split_from [] cs else word # split_from [] cs)
      else split_from (word @ [c]) cs)"

definition py_split :: "ustring \<Rightarrow> ustring list" where
  "py_split s = split_from [] s"

text \<open>\<open>s.replace(old, new)\<close> for single characters.\<close>

definition replace_char :: "uchar \<Rightarrow> uchar \<Rightarrow> ustring \<Rightarrow> ustring" where
  "replace_char old new s = map (\<lambda>c. if c = old then new else c) s"

text \<open>
  The scraper object: the constructor strips the slashes at the end of the URL. The
  delay between requests and the HTTP session are not part of the model.
\<close>

record scraper =
  base_url :: ustring
  api_url :: ustring


text \<open>The dictionary \<open>page_data\<close> of lines 135 to 141, with its five fixed keys.\<close>

record article_record =
  title :: ustring
  url :: ustring
  content :: ustring
  raw_content :: ustring
  word_count :: int

text \<open>
  One iteration of the loop of lines 126 to 150 on the list \<open>scraped_content\<close>. The wiki
  may answer the \<open>i\<close>-th request differently from the others: \<open>server i\<close> is the wiki
  at that request. The checkpoint file and the delay are left out.
\<close>

definition scrape_page ::
  "scraper \<Rightarrow> (nat \<Rightarrow> ustring \<Rightarrow> content_response) \<Rightarrow> article_record list \<Rightarrow> nat \<times> ustring
     \<Rightarrow> article_record list" where
  "scrape_page self server scraped_content it =
     (case it of (i, t) \<Rightarrow>
        (case get_page_content (server i) t of
           None \<Rightarrow> scraped_content
         | Some raw \<Rightarrow>
             if raw = [] then scraped_content
             else (let clean_content = clean_wikitext (Some raw)
                   in if py_strip is_space clean_content = [] then scraped_content
                      else scraped_content @
                        [\<lparr>title = t,
                          url = base_url self @ ustr ''/wiki/'' @
                                replace_char (of_char CHR '' '') (of_char CHR ''_'') t,
                          content = clean_content,
                          raw_content = raw,
                          word_count = int (length (py_split clean_content))\<rparr>])))"

definition scrape_pages ::
  "scraper \<Rightarrow> (nat \<Rightarrow> ustring \<Rightarrow> content_response) \<Rightarrow> ustring list \<Rightarrow> article_record list" where
  "scrape_pages self server titles =
     foldl (scrape_page self server) [] (enumerate 0 titles)"

text \<open>
  \<open>scrape_all_content\<close>: the titles are listed first; with no title the function
  returns at once (\<open>NoPages\<close>), otherwise it returns the list the loop has built. The
  outer \<open>None\<close> is a listing that never returns. Writing the JSON file and removing
  the checkpoint file are left out.
\<close>

datatype scrape_result = NoPages | Scraped "article_record list"

definition scrape_all_content ::
  "scraper \<Rightarrow> listing_response list \<Rightarrow> (nat \<Rightarrow> ustring \<Rightarrow> content_response)
     \<Rightarrow> scrape_result option" where
  "scrape_all_content self listing server =
     (case get_all_page_titles listing of
        None \<Rightarrow> None
      | Some titles \<Rightarrow>
          Some (if titles = [] then NoPages else Scraped (scrape_pages self server titles)))"

text \<open>
  The hand-off: \<open>json.dump\<close> of a record by the fetcher and \<open>json.load\<close> by the exporter
  give the exporter this dictionary.
\<close>

definition json_of_record :: "article_record \<Rightarrow> article" where
  "json_of_record r =
     [''title'' \<mapsto> PStr (title r), ''url'' \<mapsto> PStr (url r), ''content'' \<mapsto> PStr (content r),
      ''raw_content'' \<mapsto> PStr (raw_content r), ''word_count'' \<mapsto> PInt (word_count r)]"

subsection \<open>What the claims speak of\<close>


text \<open>The title of an article as the loop reads it.\<close>

definition title_of :: "article \<Rightarrow> pyval" where
  "title_of a = dict_get a ''title'' (PStr (ustr ''Untitled''))"

text \<open>
  What an iteration that ends leaves: the state at the end of the \<open>try\<close> block, or
  that at the exception with the article counted as skipped.
\<close>

definition article_effect :: "platform \<Rightarrow> export_state \<Rightarrow> article \<Rightarrow> export_state" where
  "article_effect env st a =
     (case try_article env st a of
        Completed st' \<Rightarrow> st'
      | Raised e st' \<Rightarrow> st'\<lparr>skipped_count := skipped_count st' + 1\<rparr>)"

text \<open>
  Whether the \<open>try\<close> block raises on an article does not depend on the state; an
  iteration ends when the block does not raise or the title can be printed.
\<close>

definition article_raises :: "platform \<Rightarrow> article \<Rightarrow> bool" where
  "article_raises env a =
     (\<not> is_Completed
        (try_article env \<lparr>files = Map.empty, converted_count = 0, skipped_count = 0\<rparr> a))"

definition iteration_ends :: "platform \<Rightarrow> article \<Rightarrow> bool" where
  "iteration_ends env a = (\<not> article_raises env a \<or> can_print env (py_format (title_of a)))"

text \<open>
  For an ArticleRecord: whether its trimmed content is non-empty, the name of its file
  (the sanitized title followed by \<open>.txt\<close>), the file this name denotes, and the text
  of its ExportedDocument after the header template of the specification.
\<close>

definition has_content :: "article_record \<Rightarrow> bool" where
  "has_content r = (py_strip is_space (content r) \<noteq> [])"

definition record_name :: "article_record \<Rightarrow> ustring" where
  "record_name r = sanitize_filename (title r) @ ustr ''.txt''"

definition record_path :: "platform \<Rightarrow> article_record \<Rightarrow> ustring" where
  "record_path env r = file_of env (record_name r)"

definition record_document :: "article_record \<Rightarrow> ustring" where
  "record_document r =
     ustr ''TITLE: '' @ title r @ [10] @
     ustr ''URL: '' @ url r @ [10] @
     ustr ''WORD COUNT: '' @ str_int (word_count r) @ [10] @
     [10] @
     ustr ''CONTENT:'' @ [10] @
     content r @ [10]"

text \<open>
  A record with content whose file the platform lets the program open, and one whose
  document is written as well.
\<close>

definition is_opened :: "platform \<Rightarrow> article_record \<Rightarrow> bool" where
  "is_opened env r = (has_content r \<and> open_error env (record_name r) = None)"

definition is_exported :: "platform \<Rightarrow> article_record \<Rightarrow> bool" where
  "is_exported env r = (is_opened env r \<and> utf8_encodable (record_document r))"

text \<open>
  For the listing: the titles a response carries (none when \<open>query.allpages\<close> is not
  there), and a response that succeeds and carries a continuation token.
\<close>

definition titles_in :: "ustring list option \<Rightarrow> ustring list" where
  "titles_in pages = (case pages of None \<Rightarrow> [] | Some ts \<Rightarrow> ts)"

definition with_token :: "ustring list option \<times> ustring \<Rightarrow> listing_response" where
  "with_token pt = ListingData (fst pt) (Some (snd pt))"

section \<open>Properties of \<open>sanitize_filename\<close>\<close>

lemma re_sub_class_map: "re_sub_class p [u] s = map (\<lambda>c. if p c then u else c) s"
  by (induction s) auto

lemma collapse_in_run:
  "spec_collapse_whitespace True s = spec_collapse_whitespace False (dropWhile is_space s)"
  by (induction s) auto

lemma re_sub_plus_collapse:
  "re_sub_class_plus is_space (ustr ''_'') s = spec_collapse_whitespace False s"
  by (induction is_space "ustr ''_''" s rule: re_sub_class_plus.induct)
     (auto simp: collapse_in_run)

lemma strip_trailing_Nil:
  "spec_strip_trailing s = [] \<longleftrightarrow> (\<forall>c\<in>set s. is_dot_or_underscore c)"
  by (induction s) (auto simp: Let_def)

lemma dropWhile_rev_trailing:
  "dropWhile is_dot_or_underscore (rev s) = rev (spec_strip_trailing s)"
  by (induction s) (auto simp: dropWhile_append Let_def strip_trailing_Nil)

lemma py_strip_spec: "py_strip is_dot_or_underscore s = spec_strip s"
  by (simp add: py_strip_def py_lstrip_def py_rstrip_def spec_strip_def dropWhile_rev_trailing)

lemma ustr_underscore: "ustr ''_'' = [95]"
  by (simp add: ustr_def)

lemma sanitize_example: "sanitize_filename (ustr ''My/Page:Name?'') = ustr ''My_Page_Name''"
  by (simp add: sanitize_filename_def ustr_def is_illegal_def illegal_chars_def is_space_def
      py_strip_def py_lstrip_def py_rstrip_def is_dot_or_underscore_def)

text \<open>
  Claim C1. For every title, \<open>sanitize_filename\<close> computes what the four steps of the
  specification compute, in their order: the characters of the class are replaced by
  underscores, each run of whitespace is collapsed to one underscore, dots and
  underscores are stripped at both ends, and the result is cut to 200 characters. On
  \<open>My/Page:Name?\<close> it returns \<open>My_Page_Name\<close>. (A function of the logic is pure and
  deterministic: its value depends on its argument only.)
\<close>

theorem sanitize_filename_steps:
  "sanitize_filename t =
     spec_truncate (spec_strip (spec_collapse_whitespace False (spec_replace_illegal t)))
   \<and> sanitize_filename (ustr ''My/Page:Name?'') = ustr ''My_Page_Name''"
proof
  have "re_sub_class is_illegal (ustr ''_'') t = spec_replace_illegal t"
    by (simp add: ustr_underscore re_sub_class_map spec_replace_illegal_def)
  then show "sanitize_filename t =
     spec_truncate (spec_strip (spec_collapse_whitespace False (spec_replace_illegal t)))"
    by (simp add: sanitize_filename_def Let_def re_sub_plus_collapse py_strip_spec
        spec_truncate_def)
  show "sanitize_filename (ustr ''My/Page:Name?'') = ustr ''My_Page_Name''"
    by (rule sanitize_example)
qed

theorem sanitize_filename_steps_witness:
  "sanitize_filename (ustr ''  .a  b<c. '') = ustr ''a_b_c''
   \<and> spec_truncate (spec_strip (spec_collapse_whitespace False
        (spec_replace_illegal (ustr ''  .a  b<c. '')))) = ustr ''a_b_c''"
  using sanitize_filename_steps [of "ustr ''  .a  b<c. ''"]
  by (simp add: spec_truncate_def spec_strip_def spec_replace_illegal_def ustr_def
      is_illegal_def illegal_chars_def is_space_def is_dot_or_underscore_def)

lemma set_re_sub_class_plus:
  "set (re_sub_class_plus p repl s) \<subseteq> set repl \<union> {c \<in> set s. \<not> p c}"
proof (induction p repl s rule: re_sub_class_plus.induct)
  case (1 p repl)
  then show ?case by simp
next
  case (2 p repl c cs)
  have "set (dropWhile p cs) \<subseteq> set cs" by (rule set_dropWhileD [THEN subsetI]) 
  with 2 show ?case by (auto split: if_splits)
qed

lemma length_re_sub_class_plus:
  "length (re_sub_class_plus p [u] s) \<le> length s"
proof (induction p "[u]" s rule: re_sub_class_plus.induct)
  case (1 p)
  then show ?case by simp
next
  case (2 p c cs)
  have "length (dropWhile p cs) \<le> length cs" by (rule length_dropWhile_le)
  with 2 show ?case by (auto split: if_splits)
qed

lemma set_py_strip: "set (py_strip p s) \<subseteq> set s"
  by (auto simp: py_strip_def py_lstrip_def py_rstrip_def dest!: set_dropWhileD)

lemma length_py_strip: "length (py_strip p s) \<le> length s"
proof -
  have "length (dropWhile p (rev (dropWhile p s))) \<le> length (rev (dropWhile p s))"
    by (rule length_dropWhile_le)
  also have "\<dots> \<le> length s" by (simp add: length_dropWhile_le)
  finally show ?thesis by (simp add: py_strip_def py_lstrip_def py_rstrip_def)
qed

lemma py_rstrip_last: "py_rstrip p s \<noteq> [] \<Longrightarrow> \<not> p (last (py_rstrip p s))"
  by (simp add: py_rstrip_def last_rev hd_dropWhile)

lemma py_rstrip_hd:
  "s \<noteq> [] \<Longrightarrow> \<not> p (hd s) \<Longrightarrow> py_rstrip p s \<noteq> [] \<and> hd (py_rstrip p s) = hd s"
  by (cases s) (auto simp: py_rstrip_def dropWhile_append hd_append)

lemma py_strip_ends:
  assumes "py_strip p s \<noteq> []"
  shows "\<not> p (hd (py_strip p s))" and "\<not> p (last (py_strip p s))"
proof -
  have ne: "dropWhile p s \<noteq> []"
  proof
    assume e: "dropWhile p s = []"
    have "py_strip p s = []"
      unfolding py_strip_def py_lstrip_def py_rstrip_def e by simp
    with assms show False by simp
  qed
  then have "\<not> p (hd (dropWhile p s))" by (rule hd_dropWhile)
  with ne show "\<not> p (hd (py_strip p s))"
    using py_rstrip_hd [of "dropWhile p s" p] by (simp add: py_strip_def py_lstrip_def)
  from assms show "\<not> p (last (py_strip p s))"
    unfolding py_strip_def by (rule py_rstrip_last)
qed

lemma sanitize_stripped: "sanitize_filename t = take 200 (stripped_filename t)"
  by (simp add: sanitize_filename_def stripped_filename_def Let_def)

lemma underscore_plain: "\<not> is_illegal 95" "\<not> is_space 95"
  by (simp_all add: is_illegal_def illegal_chars_def is_space_def)

lemma stripped_filename_chars:
  assumes "c \<in> set (stripped_filename t)"
  shows "\<not> is_illegal c \<and> \<not> is_space c"
proof -
  let ?a = "re_sub_class is_illegal (ustr ''_'') t"
  let ?b = "re_sub_class_plus is_space (ustr ''_'') ?a"
  from assms have "c \<in> set ?b"
    using set_py_strip by (auto simp: stripped_filename_def)
  then have cb: "c = 95 \<or> (c \<in> set ?a \<and> \<not> is_space c)"
    using set_re_sub_class_plus [of is_space "ustr ''_''" ?a] by (auto simp: ustr_underscore)
  have "\<forall>x \<in> set ?a. \<not> is_illegal x"
    by (auto simp: ustr_underscore re_sub_class_map underscore_plain)
  with cb show ?thesis by (auto simp: underscore_plain)
qed

lemma length_stripped_filename: "length (stripped_filename t) \<le> length t"
proof -
  have "length (stripped_filename t)
          \<le> length (re_sub_class_plus is_space [95] (re_sub_class is_illegal [95] t))"
    unfolding stripped_filename_def ustr_underscore by (rule length_py_strip)
  also have "\<dots> \<le> length (re_sub_class is_illegal [95] t)"
    by (rule length_re_sub_class_plus)
  also have "\<dots> = length t" by (simp add: re_sub_class_map)
  finally show ?thesis .
qed

lemma re_sub_class_id: "\<forall>c\<in>set s. \<not> p c \<Longrightarrow> re_sub_class p r s = s"
  by (induction s) auto

lemma re_sub_class_plus_id: "\<forall>c\<in>set s. \<not> p c \<Longrightarrow> re_sub_class_plus p r s = s"
  by (induction p r s rule: re_sub_class_plus.induct) auto

text \<open>
  Claim C4, as the code has it. For every title the result of \<open>sanitize_filename\<close>
  holds no character of the class and no whitespace, has at most 200 characters and
  does not begin with a dot or an underscore. It does not end with one either when the
  name is not cut by the length limit, that is when the name stripped at line 17 has at
  most 200 characters, as it has for every title of at most 200 characters.
\<close>

theorem sanitize_filename_safe:
  "(\<forall>c \<in> set (sanitize_filename t). \<not> is_illegal c \<and> \<not> is_space c)
   \<and> length (sanitize_filename t) \<le> 200
   \<and> (sanitize_filename t \<noteq> [] \<longrightarrow> \<not> is_dot_or_underscore (hd (sanitize_filename t)))
   \<and> (length (stripped_filename t) \<le> 200 \<longrightarrow> sanitize_filename t \<noteq> [] \<longrightarrow>
        \<not> is_dot_or_underscore (last (sanitize_filename t)))
   \<and> (length t \<le> 200 \<longrightarrow> length (stripped_filename t) \<le> 200)"
proof (intro conjI)
  show "\<forall>c \<in> set (sanitize_filename t). \<not> is_illegal c \<and> \<not> is_space c"
    using stripped_filename_chars by (auto simp: sanitize_stripped dest: in_set_takeD)
  show "length (sanitize_filename t) \<le> 200"
    by (simp add: sanitize_stripped)
  show "sanitize_filename t \<noteq> [] \<longrightarrow> \<not> is_dot_or_underscore (hd (sanitize_filename t))"
    using py_strip_ends(1) [of is_dot_or_underscore]
    by (auto simp: sanitize_stripped stripped_filename_def)
  show "length (stripped_filename t) \<le> 200 \<longrightarrow> sanitize_filename t \<noteq> [] \<longrightarrow>
        \<not> is_dot_or_underscore (last (sanitize_filename t))"
  proof (intro impI)
    assume "length (stripped_filename t) \<le> 200" and ne: "sanitize_filename t \<noteq> []"
    then have eq: "sanitize_filename t = stripped_filename t"
      by (simp add: sanitize_stripped)
    with ne show "\<not> is_dot_or_underscore (last (sanitize_filename t))"
      using py_strip_ends(2) [of is_dot_or_underscore] by (simp add: stripped_filename_def)
  qed
  show "length t \<le> 200 \<longrightarrow> length (stripped_filename t) \<le> 200"
    using length_stripped_filename [of t] by simp
qed

theorem sanitize_filename_safe_witness:
  "sanitize_filename (ustr ''..Is it * or  ?_'') = ustr ''Is_it___or''
   \<and> list_all (\<lambda>c. \<not> is_illegal c \<and> \<not> is_space c) (sanitize_filename (ustr ''..Is it * or  ?_''))
   \<and> length (sanitize_filename (ustr ''..Is it * or  ?_'')) \<le> 200
   \<and> \<not> is_dot_or_underscore (hd (sanitize_filename (ustr ''..Is it * or  ?_'')))
   \<and> length (stripped_filename (ustr ''..Is it * or  ?_'')) \<le> 200
   \<and> \<not> is_dot_or_underscore (last (sanitize_filename (ustr ''..Is it * or  ?_'')))"
proof -
  have v: "sanitize_filename (ustr ''..Is it * or  ?_'') = ustr ''Is_it___or''"
    by (simp add: sanitize_filename_def ustr_def is_illegal_def illegal_chars_def is_space_def
        py_strip_def py_lstrip_def py_rstrip_def is_dot_or_underscore_def)
  have l: "length (ustr ''..Is it * or  ?_'') \<le> 200"
    by (simp add: ustr_def)
  have ne: "ustr ''Is_it___or'' \<noteq> []"
    by (simp add: ustr_def)
  show ?thesis
    using sanitize_filename_safe [of "ustr ''..Is it * or  ?_''"] v l ne
    by (simp add: list_all_iff)
qed

text \<open>
  The claim as stated fails on a long title: 199 letters \<open>a\<close>, an underscore and a
  letter \<open>b\<close> are cut after the underscore.
\<close>

theorem sanitize_filename_trailing_counterexample:
  "sanitize_filename (replicate 199 97 @ ustr ''_b'') = replicate 199 97 @ ustr ''_''
   \<and> is_dot_or_underscore (last (sanitize_filename (replicate 199 97 @ ustr ''_b'')))"
proof -
  let ?t = "replicate 199 97 @ ustr ''_b''"
  have 1: "re_sub_class is_illegal (ustr ''_'') ?t = ?t"
    by (rule re_sub_class_id) (auto simp: ustr_def is_illegal_def illegal_chars_def)
  have 2: "re_sub_class_plus is_space (ustr ''_'') ?t = ?t"
    by (rule re_sub_class_plus_id) (auto simp: ustr_def is_space_def)
  have 3: "py_strip is_dot_or_underscore ?t = ?t"
    by (simp add: py_strip_def py_lstrip_def py_rstrip_def is_dot_or_underscore_def ustr_def)
  have "sanitize_filename ?t = replicate 199 97 @ ustr ''_''"
    by (simp add: sanitize_filename_def 1 2 3 Let_def) (simp add: ustr_def)
  then show ?thesis
    by (simp add: is_dot_or_underscore_def ustr_def)
qed

section \<open>Properties of the export loop\<close>

text \<open>The definitions that a concrete run of \<open>sanitize_filename\<close> unfolds.\<close>

lemmas eval_defs = sanitize_filename_def ustr_def is_illegal_def illegal_chars_def is_space_def
      py_strip_def py_lstrip_def py_rstrip_def is_dot_or_underscore_def

text \<open>
  An iteration ends, rather than raises, when its \<open>try\<close> block runs to its end or the
  message of the \<open>except\<close> clause can be printed; the loop reaches its end exactly when
  every iteration does, and its state is then the fold of the iterations' effects.
\<close>

lemma try_article_raises:
  "is_Completed (try_article env st a) = (\<not> article_raises env a)"
  by (simp add: article_raises_def try_article_def Let_def
      split: sum.splits option.splits)

lemma convert_article_ends:
  "iteration_ends env a \<Longrightarrow> convert_article env st a = Completed (article_effect env st a)"
  using try_article_raises [of env st a]
  by (auto simp: iteration_ends_def convert_article_def article_effect_def except_clause_def
      title_of_def split: outcome.splits)

lemma convert_article_completed:
  "convert_article env st a = Completed st' \<Longrightarrow> st' = article_effect env st a \<and> iteration_ends env a"
  using try_article_raises [of env st a]
  by (auto simp: iteration_ends_def convert_article_def article_effect_def except_clause_def
      title_of_def split: outcome.splits if_splits)

lemma elements_ends:
  "\<forall>a\<in>set arts. iteration_ends env a \<Longrightarrow>
   convert_elements env t st (map JObject arts) = Completed (foldl (article_effect env) st arts)"
  by (induction arts arbitrary: t st) (simp_all add: convert_article_ends)

lemma elements_completed:
  "convert_elements env t st (map JObject arts) = Completed st' \<Longrightarrow>
   st' = foldl (article_effect env) st arts \<and> (\<forall>a\<in>set arts. iteration_ends env a)"
proof (induction arts arbitrary: t st)
  case Nil
  then show ?case by simp
next
  case (Cons a arts)
  from Cons.prems obtain s where s: "convert_article env st a = Completed s"
    and r: "convert_elements env (Some (dict_get a ''title'' (PStr (ustr ''Untitled'')))) s
              (map JObject arts) = Completed st'"
    by (auto split: outcome.splits)
  from convert_article_completed [OF s] Cons.IH [OF r] show ?case by simp
qed

lemma articles_completed:
  "convert_articles env d arts = Completed st \<longleftrightarrow>
   st = foldl (article_effect env) \<lparr>files = d, converted_count = 0, skipped_count = 0\<rparr> arts
   \<and> (\<forall>a\<in>set arts. iteration_ends env a)"
  using elements_completed [of env None _ arts st] elements_ends [of arts env None]
  by (auto simp: convert_articles_def)











lemma ustr_Nil: "ustr [] = []"
  by (simp add: ustr_def)










section \<open>Exported documents\<close>

text \<open>
  The loop on the objects of ArticleRecords: all fields are present and have their
  types, so an iteration depends only on the content being blank, on the file being
  opened, and on the document being encoded.
\<close>

lemma document_content_record:
  "document_content (PStr (title r)) (PStr (url r)) (PInt (word_count r)) (PStr (content r))
     = record_document r"
  by (simp add: document_content_def record_document_def ustr_def)

lemma try_record:
  "try_article env st (json_of_record r) =
     (if \<not> has_content r then Completed (st\<lparr>skipped_count := skipped_count st + 1\<rparr>)
      else if \<not> is_opened env r then Raised (the (open_error env (record_name r))) st
      else if is_exported env r
      then Completed (st\<lparr>files := (files st)(record_path env r \<mapsto> record_document r),
                         converted_count := converted_count st + 1\<rparr>)
      else Raised UnicodeEncodeError (st\<lparr>files := (files st)(record_path env r \<mapsto> [])\<rparr>))"
  by (auto simp: try_article_def dict_get_def json_of_record_def Let_def
      has_content_def record_path_def record_name_def document_content_record is_opened_def is_exported_def
      split: option.splits)

lemma effect_record:
  "article_effect env st (json_of_record r) =
     (if is_exported env r
      then st\<lparr>files := (files st)(record_path env r \<mapsto> record_document r),
              converted_count := converted_count st + 1\<rparr>
      else if is_opened env r
      then st\<lparr>files := (files st)(record_path env r \<mapsto> []),
              skipped_count := skipped_count st + 1\<rparr>
      else st\<lparr>skipped_count := skipped_count st + 1\<rparr>)"
  by (auto simp: article_effect_def try_record is_exported_def is_opened_def)

lemma record_raises:
  "article_raises env (json_of_record r) \<longleftrightarrow> has_content r \<and> \<not> is_exported env r"
  by (auto simp: article_raises_def try_record is_exported_def)

lemma record_title: "py_format (title_of (json_of_record r)) = title r"
  by (simp add: title_of_def dict_get_def json_of_record_def)

lemma record_ends:
  "iteration_ends env (json_of_record r) \<longleftrightarrow>
     (\<not> has_content r \<or> is_exported env r \<or> can_print env (title r))"
  by (auto simp: iteration_ends_def record_raises record_title)

lemma foldl_records_snoc:
  "foldl (article_effect env) st (map json_of_record (rs @ [r]))
     = article_effect env (foldl (article_effect env) st (map json_of_record rs))
         (json_of_record r)"
  by simp

lemma records_counts:
  "converted_count (foldl (article_effect env) st (map json_of_record rs))
     = converted_count st + length (filter (is_exported env) rs)
   \<and> skipped_count (foldl (article_effect env) st (map json_of_record rs))
     = skipped_count st + length (filter (\<lambda>r. \<not> is_exported env r) rs)"
  by (induction rs rule: rev_induct) (simp_all add: effect_record)

lemma records_untouched:
  "\<forall>r\<in>set rs. is_opened env r \<longrightarrow> record_path env r \<noteq> p \<Longrightarrow>
   files (foldl (article_effect env) st (map json_of_record rs)) p = files st p"
  by (induction rs rule: rev_induct) (auto simp: effect_record is_exported_def)

lemma dom_if_upd: "dom (\<lambda>a. if a = p then Some v else f a) = insert p (dom f)"
  by (auto simp: dom_def)

lemma records_dom:
  "dom (files (foldl (article_effect env) st (map json_of_record rs)))
     = dom (files st) \<union> record_path env ` {r \<in> set rs. is_opened env r}"
proof (induction rs rule: rev_induct)
  case Nil
  then show ?case by simp
next
  case (snoc x xs)
  have s: "{r \<in> set (xs @ [x]). is_opened env r}
             = (if is_opened env x then insert x {r \<in> set xs. is_opened env r}
                else {r \<in> set xs. is_opened env r})"
    by auto
  show ?case
    unfolding foldl_records_snoc s using snoc.IH
    by (simp add: effect_record dom_if_upd is_exported_def)
qed

lemma records_last:
  assumes "is_exported env r"
      and "\<forall>q\<in>set post. is_opened env q \<longrightarrow> record_path env q \<noteq> record_path env r"
  shows "files (foldl (article_effect env) st (map json_of_record (pre @ r # post)))
           (record_path env r) = Some (record_document r)"
proof -
  let ?mid = "article_effect env (foldl (article_effect env) st (map json_of_record pre))
                (json_of_record r)"
  have "foldl (article_effect env) st (map json_of_record (pre @ r # post))
          = foldl (article_effect env) ?mid (map json_of_record post)"
    by simp
  then have "files (foldl (article_effect env) st (map json_of_record (pre @ r # post)))
               (record_path env r) = files ?mid (record_path env r)"
    using records_untouched [OF assms(2), of ?mid] by simp
  also have "\<dots> = Some (record_document r)"
    using assms(1) by (simp add: effect_record)
  finally show ?thesis .
qed

lemma records_some_writer:
  "r \<in> set rs \<Longrightarrow> is_opened env r \<Longrightarrow>
   \<exists>q\<in>set rs. is_opened env q \<and> record_path env q = record_path env r \<and>
     files (foldl (article_effect env) st (map json_of_record rs)) (record_path env r)
       = Some (if is_exported env q then record_document q else [])"
proof (induction rs rule: rev_induct)
  case Nil
  then show ?case by simp
next
  case (snoc x xs)
  show ?case
  proof (cases "is_opened env x \<and> record_path env x = record_path env r")
    case True
    then show ?thesis by (auto simp: effect_record is_exported_def)
  next
    case False
    with snoc.prems have "r \<in> set xs" by auto
    from snoc.IH [OF this snoc.prems(2)] False show ?thesis
      by (auto simp: effect_record is_exported_def)
  qed
qed

lemma records_distinct:
  assumes "distinct (map (record_path env) (filter has_content rs))" "r \<in> set rs" "is_exported env r"
  shows "files (foldl (article_effect env) st (map json_of_record rs)) (record_path env r)
           = Some (record_document r)"
proof -
  from assms(3) have o: "is_opened env r" by (simp add: is_exported_def)
  from records_some_writer [OF assms(2) o, of st] obtain q where
    q: "q \<in> set rs" "is_opened env q" "record_path env q = record_path env r"
       "files (foldl (article_effect env) st (map json_of_record rs)) (record_path env r)
          = Some (if is_exported env q then record_document q else [])"
    by blast
  from assms(1) have "inj_on (record_path env) (set (filter has_content rs))"
    by (simp add: distinct_map)
  with q(1,2,3) assms(2) o have "q = r" by (auto simp: is_opened_def dest: inj_onD)
  with q(4) assms(3) show ?thesis by simp
qed

text \<open>
  Claim C9. The path of a record is the file that its sanitized title followed by
  \<open>.txt\<close> denotes. When the export of a list of records reaches its end: the converted
  count is the number of records with non-blank content whose file can be opened and
  whose document can be encoded, and the skipped count is the number of the others.
  The files of the directory are those it had and the paths of the records with
  content whose file can be opened; every other file is as it was. Each of these
  paths holds what a record with content and this path left there: its document, or
  nothing if its document cannot be encoded. When the records with content have
  pairwise different paths, the path of each record that is exported holds the
  document of that very record. A record with blank content is only counted as
  skipped. The export reaches its end whenever each record has blank content, or is
  exported, or has a title that standard output can encode.
\<close>

theorem export_documents:
  "(convert_articles env d (map json_of_record rs) = Completed st \<longrightarrow>
      converted_count st = length (filter (is_exported env) rs)
      \<and> skipped_count st = length (filter (\<lambda>r. \<not> is_exported env r) rs)
      \<and> dom (files st) = dom d \<union> record_path env ` {r \<in> set rs. is_opened env r}
      \<and> (\<forall>p. p \<notin> record_path env ` {r \<in> set rs. is_opened env r} \<longrightarrow> files st p = d p)
      \<and> (\<forall>r\<in>set rs. is_opened env r \<longrightarrow>
           (\<exists>q\<in>set rs. is_opened env q \<and> record_path env q = record_path env r \<and>
              files st (record_path env r)
                = Some (if is_exported env q then record_document q else [])))
      \<and> (distinct (map (record_path env) (filter has_content rs)) \<longrightarrow>
           (\<forall>r\<in>set rs. is_exported env r \<longrightarrow>
              files st (record_path env r) = Some (record_document r))))
   \<and> (\<not> has_content r \<longrightarrow>
        convert_article env s (json_of_record r)
          = Completed (s\<lparr>skipped_count := skipped_count s + 1\<rparr>))
   \<and> ((\<forall>r\<in>set rs. \<not> has_content r \<or> is_exported env r \<or> can_print env (title r)) \<longrightarrow>
        (\<exists>st. convert_articles env d (map json_of_record rs) = Completed st))"
proof (intro conjI impI)
  let ?st = "\<lparr>files = d, converted_count = 0, skipped_count = 0\<rparr>"
  assume "convert_articles env d (map json_of_record rs) = Completed st"
  then have st: "st = foldl (article_effect env) ?st (map json_of_record rs)"
    by (simp add: articles_completed)
  show "converted_count st = length (filter (is_exported env) rs)"
    and "skipped_count st = length (filter (\<lambda>r. \<not> is_exported env r) rs)"
    using records_counts [of env ?st rs] by (simp_all add: st)
  show "dom (files st) = dom d \<union> record_path env ` {r \<in> set rs. is_opened env r}"
    using records_dom [of env ?st rs] by (simp add: st)
  show "\<forall>p. p \<notin> record_path env ` {r \<in> set rs. is_opened env r} \<longrightarrow> files st p = d p"
  proof (intro allI impI)
    fix p assume "p \<notin> record_path env ` {r \<in> set rs. is_opened env r}"
    then have "\<forall>r\<in>set rs. is_opened env r \<longrightarrow> record_path env r \<noteq> p" by auto
    from records_untouched [OF this, of ?st] show "files st p = d p" by (simp add: st)
  qed
  show "\<forall>r\<in>set rs. is_opened env r \<longrightarrow>
           (\<exists>q\<in>set rs. is_opened env q \<and> record_path env q = record_path env r \<and>
              files st (record_path env r)
                = Some (if is_exported env q then record_document q else []))"
    using records_some_writer [of _ rs env ?st] by (simp add: st)
  show "\<forall>r\<in>set rs. is_exported env r \<longrightarrow>
              files st (record_path env r) = Some (record_document r)"
    if "distinct (map (record_path env) (filter has_content rs))"
    using records_distinct [OF that, where st = ?st] by (simp add: st)
next
  assume "\<not> has_content r"
  then show "convert_article env s (json_of_record r)
          = Completed (s\<lparr>skipped_count := skipped_count s + 1\<rparr>)"
    by (simp add: convert_article_def try_record)
next
  assume "\<forall>r\<in>set rs. \<not> has_content r \<or> is_exported env r \<or> can_print env (title r)"
  then show "\<exists>st. convert_articles env d (map json_of_record rs) = Completed st"
    by (simp add: articles_completed record_ends)
qed

lemmas record_defs = is_exported_def is_opened_def has_content_def open_error_def
      record_path_def record_name_def record_document_def linux_utf8_def name_bytes_def utf8_encodable_def
      is_surrogate_def can_print_def str_int_def decimal.simps

lemma records_run:
  "\<forall>r\<in>set rs. \<not> has_content r \<or> is_exported env r \<or> can_print env (title r) \<Longrightarrow>
   convert_articles env d (map json_of_record rs)
     = Completed (foldl (article_effect env)
         \<lparr>files = d, converted_count = 0, skipped_count = 0\<rparr> (map json_of_record rs))"
  by (simp add: articles_completed record_ends)

text \<open>
  On Linux: a record that is exported, one with blank content, and one whose title
  holds a NUL character, which is skipped without a file.
\<close>

theorem export_documents_witness:
  "is_exported linux_utf8
     \<lparr>title = ustr ''Test Page'', url = ustr ''w'', content = ustr ''Hello world'',
       raw_content = ustr ''Hello world'', word_count = 2\<rparr>
   \<and> \<not> has_content
     \<lparr>title = ustr ''Empty'', url = ustr ''e'', content = ustr ''  '',
       raw_content = ustr ''  '', word_count = 0\<rparr>
   \<and> \<not> is_opened linux_utf8
     \<lparr>title = [97, 0, 98], url = ustr ''n'', content = ustr ''z'',
       raw_content = ustr ''z'', word_count = 1\<rparr>
   \<and> convert_articles linux_utf8 Map.empty (map json_of_record
       [\<lparr>title = ustr ''Test Page'', url = ustr ''w'', content = ustr ''Hello world'',
          raw_content = ustr ''Hello world'', word_count = 2\<rparr>,
        \<lparr>title = ustr ''Empty'', url = ustr ''e'', content = ustr ''  '',
          raw_content = ustr ''  '', word_count = 0\<rparr>,
        \<lparr>title = [97, 0, 98], url = ustr ''n'', content = ustr ''z'',
          raw_content = ustr ''z'', word_count = 1\<rparr>])
     = Completed \<lparr>files = [ustr ''Test_Page.txt'' \<mapsto>
          ustr ''TITLE: Test Page\<newline>URL: w\<newline>WORD COUNT: 2\<newline>\<newline>CONTENT:\<newline>Hello world\<newline>''],
        converted_count = 1, skipped_count = 2\<rparr>
   \<and> dom [ustr ''Test_Page.txt'' \<mapsto>
          ustr ''TITLE: Test Page\<newline>URL: w\<newline>WORD COUNT: 2\<newline>\<newline>CONTENT:\<newline>Hello world\<newline>'']
     = {record_path linux_utf8 \<lparr>title = ustr ''Test Page'', url = ustr ''w'', content = ustr ''Hello world'',
          raw_content = ustr ''Hello world'', word_count = 2\<rparr>}"
proof -
  let ?r1 = "\<lparr>title = ustr ''Test Page'', url = ustr ''w'', content = ustr ''Hello world'',
          raw_content = ustr ''Hello world'', word_count = 2\<rparr>"
  let ?r2 = "\<lparr>title = ustr ''Empty'', url = ustr ''e'', content = ustr ''  '',
          raw_content = ustr ''  '', word_count = 0\<rparr>"
  let ?r3 = "\<lparr>title = [97, 0, 98], url = ustr ''n'', content = ustr ''z'',
          raw_content = ustr ''z'', word_count = 1\<rparr>"
  let ?S = "\<lparr>files = [ustr ''Test_Page.txt'' \<mapsto>
          ustr ''TITLE: Test Page\<newline>URL: w\<newline>WORD COUNT: 2\<newline>\<newline>CONTENT:\<newline>Hello world\<newline>''],
        converted_count = 1, skipped_count = 2\<rparr>"
  have h: "is_exported linux_utf8 ?r1" "\<not> has_content ?r2" "\<not> is_opened linux_utf8 ?r3"
    "can_print linux_utf8 (title ?r3)"
    by (simp_all add: record_defs eval_defs)
  then have x: "\<not> is_exported linux_utf8 ?r2" "\<not> is_exported linux_utf8 ?r3"
    "\<not> is_opened linux_utf8 ?r2" "is_opened linux_utf8 ?r1"
    by (simp_all add: is_exported_def is_opened_def)
  have p: "record_path linux_utf8 ?r1 = ustr ''Test_Page.txt''"
    by (simp add: record_path_def record_name_def linux_utf8_def eval_defs)
  have t: "record_document ?r1 = ustr ''TITLE: Test Page\<newline>URL: w\<newline>WORD COUNT: 2\<newline>\<newline>CONTENT:\<newline>Hello world\<newline>''"
    by (simp add: record_document_def str_int_def decimal.simps ustr_def)
  have "convert_articles linux_utf8 Map.empty (map json_of_record [?r1, ?r2, ?r3])
          = Completed (foldl (article_effect linux_utf8)
              \<lparr>files = Map.empty, converted_count = 0, skipped_count = 0\<rparr>
              (map json_of_record [?r1, ?r2, ?r3]))"
    by (rule records_run) (use h in simp)
  then have v: "convert_articles linux_utf8 Map.empty (map json_of_record [?r1, ?r2, ?r3])
          = Completed ?S"
    by (simp add: effect_record h x p t)
  from export_documents [of linux_utf8 Map.empty "[?r1, ?r2, ?r3]" ?S ?r2
      "\<lparr>files = Map.empty, converted_count = 0, skipped_count = 0\<rparr>"] v h
  show ?thesis by (simp add: p)
qed

text \<open>
  Two records with content and one document: the titles \<open>A B\<close> and \<open>A_B\<close> have the same
  sanitized name, both records are counted as converted, and the only file holds the
  second.
\<close>

theorem export_documents_counterexample:
  "has_content \<lparr>title = ustr ''A B'', url = ustr ''u1'', content = ustr ''x'',
       raw_content = ustr ''x'', word_count = 1\<rparr>
   \<and> record_path linux_utf8 \<lparr>title = ustr ''A B'', url = ustr ''u1'', content = ustr ''x'',
       raw_content = ustr ''x'', word_count = 1\<rparr> = ustr ''A_B.txt''
   \<and> convert_articles linux_utf8 Map.empty (map json_of_record
       [\<lparr>title = ustr ''A B'', url = ustr ''u1'', content = ustr ''x'',
          raw_content = ustr ''x'', word_count = 1\<rparr>,
        \<lparr>title = ustr ''A_B'', url = ustr ''u2'', content = ustr ''y'',
          raw_content = ustr ''y'', word_count = 1\<rparr>])
     = Completed \<lparr>files = [ustr ''A_B.txt'' \<mapsto>
          ustr ''TITLE: A_B\<newline>URL: u2\<newline>WORD COUNT: 1\<newline>\<newline>CONTENT:\<newline>y\<newline>''],
        converted_count = 2, skipped_count = 0\<rparr>"
proof -
  let ?r1 = "\<lparr>title = ustr ''A B'', url = ustr ''u1'', content = ustr ''x'',
       raw_content = ustr ''x'', word_count = 1\<rparr>"
  let ?r2 = "\<lparr>title = ustr ''A_B'', url = ustr ''u2'', content = ustr ''y'',
          raw_content = ustr ''y'', word_count = 1\<rparr>"
  have h: "is_exported linux_utf8 ?r1" "is_exported linux_utf8 ?r2" "has_content ?r1"
    by (simp_all add: record_defs eval_defs)
  have p: "record_path linux_utf8 ?r1 = ustr ''A_B.txt''" "record_path linux_utf8 ?r2 = ustr ''A_B.txt''"
    by (simp_all add: record_path_def record_name_def linux_utf8_def eval_defs)
  have t: "record_document ?r2 = ustr ''TITLE: A_B\<newline>URL: u2\<newline>WORD COUNT: 1\<newline>\<newline>CONTENT:\<newline>y\<newline>''"
    by (simp add: record_document_def str_int_def decimal.simps ustr_def)
  have "convert_articles linux_utf8 Map.empty (map json_of_record [?r1, ?r2])
          = Completed (foldl (article_effect linux_utf8)
              \<lparr>files = Map.empty, converted_count = 0, skipped_count = 0\<rparr>
              (map json_of_record [?r1, ?r2]))"
    by (rule records_run) (use h in simp)
  then have "convert_articles linux_utf8 Map.empty (map json_of_record [?r1, ?r2])
          = Completed \<lparr>files = [ustr ''A_B.txt'' \<mapsto> record_document ?r2],
              converted_count = 2, skipped_count = 0\<rparr>"
    by (simp add: effect_record h p)
  with h(3) p(1) t show ?thesis by simp
qed

section \<open>Reading a document back\<close>

text \<open>
  The document of a record determines the record, when neither title nor url holds a
  line feed: the header lines are then read off one by one. The file's text is the
  text that was written.
\<close>

lemma split_newline:
  "10 \<notin> set a \<Longrightarrow> 10 \<notin> set b \<Longrightarrow> a @ 10 # x = b @ 10 # y \<Longrightarrow> a = b \<and> x = y"
proof (induction a arbitrary: b)
  case Nil
  then show ?case by (cases b) auto
next
  case (Cons c a)
  then show ?case by (cases b) auto
qed

lemma decimal_digits: "c \<in> set (decimal n) \<Longrightarrow> 48 \<le> c \<and> c \<le> 57"
proof (induction n rule: decimal.induct)
  case (1 n)
  then show ?case
    by (subst (asm) decimal.simps) (auto split: if_splits)
qed

lemma decimal_not_Nil: "decimal n \<noteq> []"
  by (subst decimal.simps) simp

lemma decimal_value: "foldl (\<lambda>a c. 10 * a + (c - 48)) 0 (decimal n) = n"
proof (induction n rule: decimal.induct)
  case (1 n)
  show ?case
  proof (cases "n < 10")
    case True
    then show ?thesis by (subst decimal.simps) simp
  next
    case False
    with 1 show ?thesis by (subst decimal.simps) simp
  qed
qed

lemma decimal_inj:
  assumes "decimal n = decimal m"
  shows "n = m"
proof -
  from assms have "foldl (\<lambda>a c. 10 * a + (c - 48)) 0 (decimal n)
      = foldl (\<lambda>a c. 10 * a + (c - 48)) 0 (decimal m)"
    by (rule arg_cong)
  then show ?thesis by (simp only: decimal_value)
qed

lemma str_int_inj: "str_int i = str_int j \<Longrightarrow> i = j"
proof -
  assume e: "str_int i = str_int j"
  have d: "\<And>n m. 45 # decimal n \<noteq> decimal m"
  proof
    fix n m assume "45 # decimal n = decimal m"
    then have "45 \<in> set (decimal m)" by (metis list.set_intros(1))
    from decimal_digits [OF this] show False by simp
  qed
  show ?thesis
  proof (cases "i < 0")
    case True
    show ?thesis
    proof (cases "j < 0")
      case True
      with \<open>i < 0\<close> e have "decimal (nat (- i)) = decimal (nat (- j))"
        by (simp add: str_int_def)
      then have "nat (- i) = nat (- j)" by (rule decimal_inj)
      with True \<open>i < 0\<close> show ?thesis by simp
    next
      case False
      with \<open>i < 0\<close> e d show ?thesis by (simp add: str_int_def)
    qed
  next
    case False
    show ?thesis
    proof (cases "j < 0")
      case True
      with False e d [of "nat (- j)" "nat i"] show ?thesis by (simp add: str_int_def)
    next
      case jn: False
      with False e have "decimal (nat i) = decimal (nat j)" by (simp add: str_int_def)
      then have "nat i = nat j" by (rule decimal_inj)
      with False jn show ?thesis by simp
    qed
  qed
qed

lemma str_int_no_newline: "10 \<notin> set (str_int i)"
  using decimal_digits [of 10] by (auto simp: str_int_def)

lemma record_document_inj:
  assumes t: "10 \<notin> set (title r)" "10 \<notin> set (title q)"
      and u: "10 \<notin> set (url r)" "10 \<notin> set (url q)"
      and e: "record_document q = record_document r"
  shows "title q = title r \<and> url q = url r \<and> word_count q = word_count r
         \<and> content q = content r"
proof -
  from e have 1: "title q @ 10 # (ustr ''URL: '' @ url q @ [10] @
        ustr ''WORD COUNT: '' @ str_int (word_count q) @ [10] @ [10] @
        ustr ''CONTENT:'' @ [10] @ content q @ [10])
     = title r @ 10 # (ustr ''URL: '' @ url r @ [10] @
        ustr ''WORD COUNT: '' @ str_int (word_count r) @ [10] @ [10] @
        ustr ''CONTENT:'' @ [10] @ content r @ [10])"
    by (simp add: record_document_def)
  from split_newline [OF t(2) t(1) 1]
  have tq: "title q = title r"
    and 2: "url q @ 10 # (ustr ''WORD COUNT: '' @ str_int (word_count q) @ [10] @ [10] @
        ustr ''CONTENT:'' @ [10] @ content q @ [10])
     = url r @ 10 # (ustr ''WORD COUNT: '' @ str_int (word_count r) @ [10] @ [10] @
        ustr ''CONTENT:'' @ [10] @ content r @ [10])"
    by simp_all
  from split_newline [OF u(2) u(1) 2]
  have uq: "url q = url r"
    and 3: "str_int (word_count q) @ 10 # ([10] @ ustr ''CONTENT:'' @ [10] @ content q @ [10])
     = str_int (word_count r) @ 10 # ([10] @ ustr ''CONTENT:'' @ [10] @ content r @ [10])"
    by simp_all
  from split_newline [OF str_int_no_newline str_int_no_newline 3]
  have wq: "str_int (word_count q) = str_int (word_count r)"
    and cq: "content q = content r"
    by simp_all
  from wq have "word_count q = word_count r" by (rule str_int_inj)
  with tq uq cq show ?thesis by simp
qed

text \<open>
  A line feed in a title or a url makes the document ambiguous: two records with
  different titles and urls have the same document.
\<close>

lemma record_document_newline_ambiguous:
  "record_document \<lparr>title = ustr ''a\<newline>URL: b'', url = ustr ''c'', content = ustr ''x'',
       raw_content = ustr ''x'', word_count = 1\<rparr>
   = record_document \<lparr>title = ustr ''a'', url = ustr ''b\<newline>URL: c'', content = ustr ''x'',
       raw_content = ustr ''x'', word_count = 1\<rparr>"
  by (simp add: record_document_def ustr_def)


text \<open>
  Claim C2. When the export of a list of records reaches its end, a record with
  non-blank content, whose file can be opened and whose document can be encoded, and
  whose path, the file that its sanitized title followed by \<open>.txt\<close> denotes, is not
  the path of a later record with content, has its document at its path: the fixed header with its title, url and word count followed
  by its content. For a record whose title and url hold no line feed, that text
  determines the four fields among the records whose title and url hold no line feed:
  such a record with the same document has the same title, url, word count and
  content.
\<close>

theorem export_round_trip:
  assumes "convert_articles env d (map json_of_record (pre @ r # post)) = Completed st"
      and "is_exported env r"
      and "\<forall>q\<in>set post. has_content q \<longrightarrow> record_path env q \<noteq> record_path env r"
  shows "files st (record_path env r) = Some (record_document r)
         \<and> (10 \<notin> set (title r) \<and> 10 \<notin> set (url r)
              \<and> 10 \<notin> set (title r') \<and> 10 \<notin> set (url r')
              \<and> record_document r' = record_document r
            \<longrightarrow> title r' = title r \<and> url r' = url r \<and> word_count r' = word_count r
                \<and> content r' = content r)"
proof (rule conjI)
  from assms(1) have "st = foldl (article_effect env)
        \<lparr>files = d, converted_count = 0, skipped_count = 0\<rparr>
        (map json_of_record (pre @ r # post))"
    by (simp only: articles_completed)
  moreover from assms(3)
  have "\<forall>q\<in>set post. is_opened env q \<longrightarrow> record_path env q \<noteq> record_path env r"
    by (simp add: is_opened_def)
  ultimately show "files st (record_path env r) = Some (record_document r)"
    using records_last [OF assms(2)] by simp
next
  show "10 \<notin> set (title r) \<and> 10 \<notin> set (url r)
              \<and> 10 \<notin> set (title r') \<and> 10 \<notin> set (url r')
              \<and> record_document r' = record_document r
            \<longrightarrow> title r' = title r \<and> url r' = url r \<and> word_count r' = word_count r
                \<and> content r' = content r"
    using record_document_inj [of r r'] by blast
qed

text \<open>
  On Linux: the record \<open>Test Page\<close> comes after a record with the same path and before
  a record of the same title with blank content and a record with another path; its
  document is the one at its path.
\<close>

theorem export_round_trip_witness:
  "is_exported linux_utf8
     \<lparr>title = ustr ''Test Page'', url = ustr ''w'', content = ustr ''Hello world'',
       raw_content = ustr ''Hello world'', word_count = 2\<rparr>
   \<and> \<not> has_content \<lparr>title = ustr ''Test Page'', url = ustr ''b'', content = ustr ''  '',
                    raw_content = ustr ''  '', word_count = 0\<rparr>
   \<and> record_path linux_utf8 \<lparr>title = ustr ''Other'', url = ustr ''o'', content = ustr ''z'',
                    raw_content = ustr ''z'', word_count = 1\<rparr>
       \<noteq> record_path linux_utf8 \<lparr>title = ustr ''Test Page'', url = ustr ''w'', content = ustr ''Hello world'',
             raw_content = ustr ''Hello world'', word_count = 2\<rparr>
   \<and> has_content \<lparr>title = ustr ''Other'', url = ustr ''o'', content = ustr ''z'',
                    raw_content = ustr ''z'', word_count = 1\<rparr>
   \<and> convert_articles linux_utf8 Map.empty (map json_of_record
       ([\<lparr>title = ustr ''Test/Page'', url = ustr ''a'', content = ustr ''old'',
           raw_content = ustr ''old'', word_count = 1\<rparr>]
        @ \<lparr>title = ustr ''Test Page'', url = ustr ''w'', content = ustr ''Hello world'',
            raw_content = ustr ''Hello world'', word_count = 2\<rparr>
        # [\<lparr>title = ustr ''Test Page'', url = ustr ''b'', content = ustr ''  '',
              raw_content = ustr ''  '', word_count = 0\<rparr>,
           \<lparr>title = ustr ''Other'', url = ustr ''o'', content = ustr ''z'',
              raw_content = ustr ''z'', word_count = 1\<rparr>]))
     = Completed \<lparr>files = [ustr ''Test_Page.txt'' \<mapsto>
          ustr ''TITLE: Test Page\<newline>URL: w\<newline>WORD COUNT: 2\<newline>\<newline>CONTENT:\<newline>Hello world\<newline>'',
          ustr ''Other.txt'' \<mapsto>
          ustr ''TITLE: Other\<newline>URL: o\<newline>WORD COUNT: 1\<newline>\<newline>CONTENT:\<newline>z\<newline>''],
        converted_count = 3, skipped_count = 1\<rparr>
   \<and> [ustr ''Test_Page.txt'' \<mapsto>
          ustr ''TITLE: Test Page\<newline>URL: w\<newline>WORD COUNT: 2\<newline>\<newline>CONTENT:\<newline>Hello world\<newline>'',
          ustr ''Other.txt'' \<mapsto>
          ustr ''TITLE: Other\<newline>URL: o\<newline>WORD COUNT: 1\<newline>\<newline>CONTENT:\<newline>z\<newline>'']
        (record_path linux_utf8 \<lparr>title = ustr ''Test Page'', url = ustr ''w'', content = ustr ''Hello world'',
            raw_content = ustr ''Hello world'', word_count = 2\<rparr>)
     = Some (record_document
          \<lparr>title = ustr ''Test Page'', url = ustr ''w'', content = ustr ''Hello world'',
            raw_content = ustr ''Hello world'', word_count = 2\<rparr>)"
proof -
  let ?a = "\<lparr>title = ustr ''Test/Page'', url = ustr ''a'', content = ustr ''old'',
           raw_content = ustr ''old'', word_count = 1\<rparr>"
  let ?r = "\<lparr>title = ustr ''Test Page'', url = ustr ''w'', content = ustr ''Hello world'',
            raw_content = ustr ''Hello world'', word_count = 2\<rparr>"
  let ?b = "\<lparr>title = ustr ''Test Page'', url = ustr ''b'', content = ustr ''  '',
              raw_content = ustr ''  '', word_count = 0\<rparr>"
  let ?o = "\<lparr>title = ustr ''Other'', url = ustr ''o'', content = ustr ''z'',
              raw_content = ustr ''z'', word_count = 1\<rparr>"
  let ?S = "\<lparr>files = [ustr ''Test_Page.txt'' \<mapsto>
          ustr ''TITLE: Test Page\<newline>URL: w\<newline>WORD COUNT: 2\<newline>\<newline>CONTENT:\<newline>Hello world\<newline>'',
          ustr ''Other.txt'' \<mapsto>
          ustr ''TITLE: Other\<newline>URL: o\<newline>WORD COUNT: 1\<newline>\<newline>CONTENT:\<newline>z\<newline>''],
        converted_count = 3, skipped_count = 1\<rparr>"
  have h: "is_exported linux_utf8 ?a" "is_exported linux_utf8 ?r" "\<not> has_content ?b"
    "is_exported linux_utf8 ?o" "has_content ?o"
    by (simp_all add: record_defs eval_defs)
  then have x: "\<not> is_exported linux_utf8 ?b" "\<not> is_opened linux_utf8 ?b"
    by (simp_all add: is_exported_def is_opened_def)
  have p: "record_path linux_utf8 ?a = ustr ''Test_Page.txt''" "record_path linux_utf8 ?r = ustr ''Test_Page.txt''"
    "record_path linux_utf8 ?o = ustr ''Other.txt''"
    by (simp_all add: record_path_def record_name_def linux_utf8_def eval_defs)
  have n: "ustr ''Other.txt'' \<noteq> ustr ''Test_Page.txt''"
    by (simp add: ustr_def)
  have t: "record_document ?r = ustr ''TITLE: Test Page\<newline>URL: w\<newline>WORD COUNT: 2\<newline>\<newline>CONTENT:\<newline>Hello world\<newline>''"
    "record_document ?o = ustr ''TITLE: Other\<newline>URL: o\<newline>WORD COUNT: 1\<newline>\<newline>CONTENT:\<newline>z\<newline>''"
    by (simp_all add: record_document_def str_int_def decimal.simps ustr_def)
  have q: "\<forall>q\<in>set [?b, ?o]. has_content q \<longrightarrow> record_path linux_utf8 q \<noteq> record_path linux_utf8 ?r"
    using h(3) n by (simp add: p)
  have "convert_articles linux_utf8 Map.empty (map json_of_record [?a, ?r, ?b, ?o])
          = Completed (foldl (article_effect linux_utf8)
              \<lparr>files = Map.empty, converted_count = 0, skipped_count = 0\<rparr>
              (map json_of_record [?a, ?r, ?b, ?o]))"
    by (rule records_run) (use h in simp)
  then have "convert_articles linux_utf8 Map.empty (map json_of_record [?a, ?r, ?b, ?o])
          = Completed \<lparr>files = [ustr ''Test_Page.txt'' \<mapsto> record_document ?r,
                ustr ''Other.txt'' \<mapsto> record_document ?o],
              converted_count = 3, skipped_count = 1\<rparr>"
    by (simp add: effect_record h x p)
  then have v: "convert_articles linux_utf8 Map.empty
        (map json_of_record ([?a] @ ?r # [?b, ?o])) = Completed ?S"
    by (simp only: t append.simps)
  from export_round_trip [OF v h(2) q] have "files ?S (record_path linux_utf8 ?r) = Some (record_document ?r)"
    by (rule conjunct1)
  then have "[ustr ''Test_Page.txt'' \<mapsto>
          ustr ''TITLE: Test Page\<newline>URL: w\<newline>WORD COUNT: 2\<newline>\<newline>CONTENT:\<newline>Hello world\<newline>'',
          ustr ''Other.txt'' \<mapsto>
          ustr ''TITLE: Other\<newline>URL: o\<newline>WORD COUNT: 1\<newline>\<newline>CONTENT:\<newline>z\<newline>'']
        (record_path linux_utf8 ?r) = Some (record_document ?r)"
    by (simp only: export_state.simps)
  moreover from n have "record_path linux_utf8 ?o \<noteq> record_path linux_utf8 ?r"
    by (simp add: p)
  ultimately show ?thesis
    using h(2) h(3) h(5) v by (intro conjI)
qed

text \<open>
  A record with content that cannot be read back: the titles \<open>a/b\<close> and \<open>a:b\<close> have the
  same sanitized name, and the file holds the second record.
\<close>

theorem export_round_trip_counterexample:
  "has_content \<lparr>title = ustr ''a/b'', url = ustr ''u1'', content = ustr ''one'',
       raw_content = ustr ''one'', word_count = 1\<rparr>
   \<and> record_path linux_utf8 \<lparr>title = ustr ''a/b'', url = ustr ''u1'', content = ustr ''one'',
       raw_content = ustr ''one'', word_count = 1\<rparr> = ustr ''a_b.txt''
   \<and> convert_articles linux_utf8 Map.empty (map json_of_record
       [\<lparr>title = ustr ''a/b'', url = ustr ''u1'', content = ustr ''one'',
          raw_content = ustr ''one'', word_count = 1\<rparr>,
        \<lparr>title = ustr ''a:b'', url = ustr ''u2'', content = ustr ''two'',
          raw_content = ustr ''two'', word_count = 1\<rparr>])
     = Completed \<lparr>files = [ustr ''a_b.txt'' \<mapsto>
          ustr ''TITLE: a:b\<newline>URL: u2\<newline>WORD COUNT: 1\<newline>\<newline>CONTENT:\<newline>two\<newline>''],
        converted_count = 2, skipped_count = 0\<rparr>"
proof -
  let ?r1 = "\<lparr>title = ustr ''a/b'', url = ustr ''u1'', content = ustr ''one'',
       raw_content = ustr ''one'', word_count = 1\<rparr>"
  let ?r2 = "\<lparr>title = ustr ''a:b'', url = ustr ''u2'', content = ustr ''two'',
          raw_content = ustr ''two'', word_count = 1\<rparr>"
  have h: "is_exported linux_utf8 ?r1" "is_exported linux_utf8 ?r2" "has_content ?r1"
    by (simp_all add: record_defs eval_defs)
  have p: "record_path linux_utf8 ?r1 = ustr ''a_b.txt''" "record_path linux_utf8 ?r2 = ustr ''a_b.txt''"
    by (simp_all add: record_path_def record_name_def linux_utf8_def eval_defs)
  have t: "record_document ?r2 = ustr ''TITLE: a:b\<newline>URL: u2\<newline>WORD COUNT: 1\<newline>\<newline>CONTENT:\<newline>two\<newline>''"
    by (simp add: record_document_def str_int_def decimal.simps ustr_def)
  have "convert_articles linux_utf8 Map.empty (map json_of_record [?r1, ?r2])
          = Completed (foldl (article_effect linux_utf8)
              \<lparr>files = Map.empty, converted_count = 0, skipped_count = 0\<rparr>
              (map json_of_record [?r1, ?r2]))"
    by (rule records_run) (use h in simp)
  then have "convert_articles linux_utf8 Map.empty (map json_of_record [?r1, ?r2])
          = Completed \<lparr>files = [ustr ''a_b.txt'' \<mapsto> record_document ?r2],
              converted_count = 2, skipped_count = 0\<rparr>"
    by (simp add: effect_record h p)
  with h(3) p(1) t show ?thesis by simp
qed

section \<open>Properties of the fetcher\<close>

lemma page_loop_complete:
  "page_loop st (map with_token ps @ ListingData pf None # rest) =
     Some (st\<lparr>all_titles := all_titles st @ concat (map (titles_in \<circ> fst) ps) @ titles_in pf,
              continue_token := last (continue_token st # map (Some \<circ> snd) ps),
              sent := sent st @ map apcontinue_param (continue_token st # map (Some \<circ> snd) ps)\<rparr>)"
proof (induction ps arbitrary: st)
  case Nil
  then show ?case by (simp add: titles_in_def split: option.splits)
next
  case (Cons pt ps)
  show ?case
    by (simp add: with_token_def Cons.IH [unfolded with_token_def] titles_in_def Let_def
        split: option.splits)
qed

lemma page_loop_failed:
  "page_loop st (map with_token ps @ ListingFailed # rest) =
     Some (st\<lparr>all_titles := all_titles st @ concat (map (titles_in \<circ> fst) ps),
              continue_token := last (continue_token st # map (Some \<circ> snd) ps),
              sent := sent st @ map apcontinue_param (continue_token st # map (Some \<circ> snd) ps)\<rparr>)"
proof (induction ps arbitrary: st)
  case Nil
  then show ?case by simp
next
  case (Cons pt ps)
  show ?case
    by (simp add: with_token_def Cons.IH [unfolded with_token_def] titles_in_def Let_def
        split: option.splits)
qed

lemma page_loop_waiting: "page_loop st (map with_token ps) = None"
proof (induction ps arbitrary: st)
  case Nil
  then show ?case by simp
next
  case (Cons pt ps)
  show ?case
    by (simp add: with_token_def Cons.IH [unfolded with_token_def] Let_def)
qed

text \<open>
  Claim C5. Let the server answer with any number of responses that succeed and carry
  a continuation token, then with one that succeeds and carries none; what it would
  answer after that does not matter. Then \<open>get_all_page_titles\<close> returns, and returns the
  titles of these responses in the order of the server, those of each response once.
  The first request carries no \<open>apcontinue\<close>, and each later one the token of the
  response before it (when that token is not the empty string); the variable
  \<open>continue_token\<close> ends as the last token received. As long as every response carries
  a token the loop goes on.
\<close>

theorem get_all_page_titles_complete:
  "get_all_page_titles (map with_token ps @ ListingData pf None # rest)
     = Some (concat (map (titles_in \<circ> fst) ps) @ titles_in pf)
   \<and> map_option sent (page_loop listing_start (map with_token ps @ ListingData pf None # rest))
     = Some (None # map (\<lambda>pt. if snd pt = [] then None else Some (snd pt)) ps)
   \<and> map_option continue_token
        (page_loop listing_start (map with_token ps @ ListingData pf None # rest))
     = Some (last (None # map (Some \<circ> snd) ps))
   \<and> get_all_page_titles (map with_token ps) = None"
  by (simp add: get_all_page_titles_def page_loop_complete page_loop_waiting listing_start_def
      comp_def)

text \<open>
  Claim C6. Let the server answer with any number of responses that succeed and carry
  a continuation token, and then let a request fail. Then \<open>get_all_page_titles\<close> returns
  the titles of the responses before the failure and nothing else, whatever the server
  would have answered afterwards. The result is a plain list of titles: it is equal to
  the result of a listing without any failure, that of a wiki whose single page of
  results holds just these titles.
\<close>

theorem get_all_page_titles_partial:
  "get_all_page_titles (map with_token ps @ ListingFailed # rest)
     = Some (concat (map (titles_in \<circ> fst) ps))
   \<and> get_all_page_titles [ListingData (Some (concat (map (titles_in \<circ> fst) ps))) None]
     = Some (concat (map (titles_in \<circ> fst) ps))"
  by (simp add: get_all_page_titles_def page_loop_failed listing_start_def titles_in_def)




theorem get_all_page_titles_complete_witness:
  "get_all_page_titles
     [ListingData (Some [ustr ''A'', ustr ''B'']) (Some (ustr ''C'')),
      ListingData (Some [ustr ''C'']) None, ListingFailed]
     = Some [ustr ''A'', ustr ''B'', ustr ''C'']
   \<and> map_option sent (page_loop listing_start
     [ListingData (Some [ustr ''A'', ustr ''B'']) (Some (ustr ''C'')),
      ListingData (Some [ustr ''C'']) None, ListingFailed])
     = Some [None, Some (ustr ''C'')]
   \<and> get_all_page_titles [ListingData (Some [ustr ''A'', ustr ''B'']) (Some (ustr ''C''))] = None"
  using get_all_page_titles_complete [of "[(Some [ustr ''A'', ustr ''B''], ustr ''C'')]"
      "Some [ustr ''C'']" "[ListingFailed]"]
  by (simp add: with_token_def titles_in_def ustr_def)

theorem get_all_page_titles_partial_witness:
  "get_all_page_titles
     [ListingData (Some [ustr ''A'', ustr ''B'']) (Some (ustr ''C'')),
      ListingFailed, ListingData (Some [ustr ''C'']) None]
     = Some [ustr ''A'', ustr ''B'']
   \<and> get_all_page_titles [ListingData (Some [ustr ''A'', ustr ''B'']) None]
     = Some [ustr ''A'', ustr ''B'']"
  using get_all_page_titles_partial [of "[(Some [ustr ''A'', ustr ''B''], ustr ''C'')]"
      "[ListingData (Some [ustr ''C'']) None]"]
  by (simp add: with_token_def titles_in_def)














end
